theory Spec2Isabelle
  imports Main
begin

section \<open>Data model\<close>

text \<open>
  The controller of \<^verbatim>\<open>FriendsContext.tsx\<close> keeps four in-memory mirrors of remote
  tables. User ids, names, emails and message texts are strings, as in the source. Row ids
  are opaque keys issued by the store and only ever compared for equality; they are
  naturals here, and so are timestamps (ISO strings in the source, ordered as time is).
\<close>

type_synonym uuid = string
type_synonym row_id = nat
type_synonym timestamp = nat

datatype request_status = Pending | Accepted | Rejected

datatype study_status = Studying | Break | Offline

subsection \<open>Rows of the remote collections\<close>

record user_row =
  u_id :: uuid
  u_name :: "string option"
  u_email :: "string option"

record friend_row =
  lk_id :: row_id
  lk_user_id :: uuid
  lk_friend_id :: uuid
  lk_created_at :: timestamp

record request_row =
  rq_id :: row_id
  rq_sender_id :: uuid
  rq_receiver_id :: uuid
  rq_status :: request_status
  rq_created_at :: timestamp

record session_row =
  ss_id :: row_id
  ss_user_id :: uuid
  ss_status :: study_status
  ss_subject :: "string option"
  ss_started_at :: timestamp
  ss_last_active :: timestamp

record message_row =
  gm_id :: row_id
  gm_user_id :: uuid
  gm_message :: string
  gm_mentions :: "uuid list option"
  gm_created_at :: timestamp

text \<open>
  The remote store: the five collections of the external interface and the store's own
  clock, which it stamps on the rows it creates (\<^verbatim>\<open>created_at\<close>, \<^verbatim>\<open>started_at\<close>).
\<close>

record remote =
  users_t :: "user_row list"
  friends_t :: "friend_row list"
  friend_requests_t :: "request_row list"
  study_sessions_t :: "session_row list"
  group_messages_t :: "message_row list"
  db_now :: timestamp

subsection \<open>Entries of the mirrors\<close>

text \<open>The object literals the loaders build, field by field.\<close>

record friend =
  f_id :: row_id
  f_user_id :: uuid
  f_friend_id :: uuid
  f_friend_name :: string
  f_friend_email :: string
  f_created_at :: timestamp

record friend_request =
  r_id :: row_id
  r_sender_id :: uuid
  r_receiver_id :: uuid
  r_sender_name :: string
  r_sender_email :: string
  r_status :: request_status
  r_created_at :: timestamp

record study_session =
  s_id :: row_id
  s_user_id :: uuid
  s_user_name :: string
  s_status :: study_status
  s_subject :: "string option"
  s_started_at :: timestamp
  s_last_active :: timestamp

record group_message =
  m_id :: row_id
  m_user_id :: uuid
  m_user_name :: string
  m_message :: string
  m_mentions :: "uuid list"
  m_created_at :: timestamp

text \<open>The five \<^verbatim>\<open>useState\<close> cells of \<^verbatim>\<open>FriendsProvider\<close>.\<close>

record controller =
  friends :: "friend list"
  friendRequests :: "friend_request list"
  studySessions :: "study_session list"
  groupMessages :: "group_message list"
  isLoading :: bool

section \<open>The remote data access layer\<close>

text \<open>
  Every call on the client resolves to \<^verbatim>\<open>{ data, error }\<close>: a sum, \<open>Inl\<close> the error.
  Whether a round trip fails is not decided by the program; each operation below takes a
  predicate \<open>err\<close> on the positions of its round trips, \<open>err i\<close> saying that the
  \<open>i\<close>-th one comes back with an error (and, for a write, without effect).
\<close>

datatype error = RemoteError | NotSingleRow | BadFilter

definition query :: "bool \<Rightarrow> 'a list \<Rightarrow> error + 'a list" where
  "query fault rows = (if fault then Inl RemoteError else Inr rows)"

text \<open>
  \<^verbatim>\<open>.single()\<close> asks for the result as one object: the call errs, with no data, unless
  the result has exactly one row.
\<close>

fun single :: "error + 'a list \<Rightarrow> error + 'a" where
  "single (Inl e) = Inl e"
| "single (Inr [x]) = Inr x"
| "single (Inr _) = Inl NotSingleRow"

text \<open>\<^verbatim>\<open>.order('created_at', { ascending: false })\<close> and \<^verbatim>\<open>.limit(n)\<close>.\<close>

definition order_desc :: "('a \<Rightarrow> nat) \<Rightarrow> 'a list \<Rightarrow> 'a list" where
  "order_desc k rows = rev (sort_key k rows)"

definition limit :: "nat \<Rightarrow> 'a list \<Rightarrow> 'a list" where
  "limit n rows = take n rows"

text \<open>The store issues a key that no row of the table carries.\<close>

definition fresh_id :: "row_id list \<Rightarrow> row_id" where
  "fresh_id ids = Suc (foldr max ids 0)"

text \<open>
  The filter \<^verbatim>\<open>or(and(user_id.eq.a,friend_id.eq.b),and(user_id.eq.b,friend_id.eq.a))\<close>
  of \<^verbatim>\<open>sendFriendRequest\<close> and \<^verbatim>\<open>removeFriend\<close>.
\<close>

definition link_between :: "uuid \<Rightarrow> uuid \<Rightarrow> friend_row \<Rightarrow> bool" where
  "link_between a b f \<longleftrightarrow>
     (lk_user_id f = a \<and> lk_friend_id f = b) \<or> (lk_user_id f = b \<and> lk_friend_id f = a)"

text \<open>
  \<^verbatim>\<open>removeFriend\<close> builds that filter as a string, splicing the caller's id and the id it
  was given into a template, unquoted; the store reads the string back by its filter
  grammar. \<open>link_filter\<close> is the template. An id made of letters, digits, \<^verbatim>\<open>-\<close> and
  \<^verbatim>\<open>_\<close> only, as the ids the store issues are, cannot be taken for filter syntax, and the
  store then reads the two conjunctions the template spells. What the store makes of any
  other string is not decided by the program: it is the parameter \<open>reads\<close>, which yields
  the row predicate the store applies, or the error it answers with.
\<close>

definition link_filter :: "uuid \<Rightarrow> uuid \<Rightarrow> string" where
  "link_filter a b =
     ''and(user_id.eq.'' @ a @ '',friend_id.eq.'' @ b @ ''),and(user_id.eq.'' @ b @
     '',friend_id.eq.'' @ a @ '')''"

definition plain_id :: "uuid \<Rightarrow> bool" where
  "plain_id s \<longleftrightarrow>
     s \<noteq> [] \<and>
     list_all (\<lambda>c. c \<in> set ''abcdefghijklmnopqrstuvwxyzABCDEFGHIJKLMNOPQRSTUVWXYZ0123456789-_'') s"

definition read_link_filter ::
  "(string \<Rightarrow> error + (friend_row \<Rightarrow> bool)) \<Rightarrow> uuid \<Rightarrow> uuid \<Rightarrow> error + (friend_row \<Rightarrow> bool)" where
  "read_link_filter reads a b =
     (if plain_id a \<and> plain_id b then Inr (link_between a b) else reads (link_filter a b))"

text \<open>JavaScript's \<^verbatim>\<open>v || d\<close> on a nullable string: \<^verbatim>\<open>null\<close> and \<^verbatim>\<open>''\<close> both give \<open>d\<close>.\<close>

definition or_default :: "string option \<Rightarrow> string \<Rightarrow> string" where
  "or_default v d = (case v of None \<Rightarrow> d | Some s \<Rightarrow> if s = [] then d else s)"

section \<open>The loaders of \<^verbatim>\<open>FriendsContext.tsx\<close>: two round trips\<close>

definition loadFriends :: "(nat \<Rightarrow> bool) \<Rightarrow> uuid option \<Rightarrow> remote \<Rightarrow> controller \<Rightarrow> controller" where
  "loadFriends err user db st =
     (case user of
        None \<Rightarrow> st
      | Some uid \<Rightarrow>
          (case query (err 0) (filter (\<lambda>f. lk_user_id f = uid) (friends_t db)) of
             Inl e \<Rightarrow> st
           | Inr friendsData \<Rightarrow>
               if friendsData = [] then st\<lparr>friends := []\<rparr>
               else
                 (let friendIds = map lk_friend_id friendsData in
                  case query (err 1) (filter (\<lambda>u. u_id u \<in> set friendIds) (users_t db)) of
                    Inl e \<Rightarrow> st
                  | Inr usersData \<Rightarrow>
                      st\<lparr>friends :=
                        map (\<lambda>f.
                          let friendUser = find (\<lambda>u. u_id u = lk_friend_id f) usersData in
                          \<lparr>f_id = lk_id f,
                           f_user_id = lk_user_id f,
                           f_friend_id = lk_friend_id f,
                           f_friend_name = or_default (Option.bind friendUser u_name) ''Unknown'',
                           f_friend_email = or_default (Option.bind friendUser u_email) '''',
                           f_created_at = lk_created_at f\<rparr>) friendsData\<rparr>)))"

definition loadFriendRequests :: "(nat \<Rightarrow> bool) \<Rightarrow> uuid option \<Rightarrow> remote \<Rightarrow> controller \<Rightarrow> controller" where
  "loadFriendRequests err user db st =
     (case user of
        None \<Rightarrow> st
      | Some uid \<Rightarrow>
          (case query (err 0)
                  (filter (\<lambda>r. rq_receiver_id r = uid \<and> rq_status r = Pending) (friend_requests_t db)) of
             Inl e \<Rightarrow> st
           | Inr requestsData \<Rightarrow>
               if requestsData = [] then st\<lparr>friendRequests := []\<rparr>
               else
                 (let senderIds = map rq_sender_id requestsData in
                  case query (err 1) (filter (\<lambda>u. u_id u \<in> set senderIds) (users_t db)) of
                    Inl e \<Rightarrow> st
                  | Inr usersData \<Rightarrow>
                      st\<lparr>friendRequests :=
                        map (\<lambda>r.
                          let senderUser = find (\<lambda>u. u_id u = rq_sender_id r) usersData in
                          \<lparr>r_id = rq_id r,
                           r_sender_id = rq_sender_id r,
                           r_receiver_id = rq_receiver_id r,
                           r_sender_name = or_default (Option.bind senderUser u_name) ''Unknown'',
                           r_sender_email = or_default (Option.bind senderUser u_email) '''',
                           r_status = rq_status r,
                           r_created_at = rq_created_at r\<rparr>) requestsData\<rparr>)))"

text \<open>
  \<^verbatim>\<open>loadStudySessions\<close> reads the \<^verbatim>\<open>friends\<close> cell as its closure captured it; the
  captured list is the argument \<open>captured\<close>.
\<close>

definition loadStudySessions ::
  "(nat \<Rightarrow> bool) \<Rightarrow> uuid option \<Rightarrow> remote \<Rightarrow> friend list \<Rightarrow> controller \<Rightarrow> controller" where
  "loadStudySessions err user db captured st =
     (case user of
        None \<Rightarrow> st
      | Some uid \<Rightarrow>
          (let friendIds = map f_friend_id captured;
               allUserIds = uid # friendIds in
           case query (err 0) (filter (\<lambda>s. ss_user_id s \<in> set allUserIds) (study_sessions_t db)) of
             Inl e \<Rightarrow> st
           | Inr sessionsData \<Rightarrow>
               if sessionsData = [] then st\<lparr>studySessions := []\<rparr>
               else
                 (let userIds = map ss_user_id sessionsData in
                  case query (err 1) (filter (\<lambda>u. u_id u \<in> set userIds) (users_t db)) of
                    Inl e \<Rightarrow> st
                  | Inr usersData \<Rightarrow>
                      st\<lparr>studySessions :=
                        map (\<lambda>s.
                          let sessionUser = find (\<lambda>u. u_id u = ss_user_id s) usersData in
                          \<lparr>s_id = ss_id s,
                           s_user_id = ss_user_id s,
                           s_user_name = or_default (Option.bind sessionUser u_name) ''Unknown'',
                           s_status = ss_status s,
                           s_subject = ss_subject s,
                           s_started_at = ss_started_at s,
                           s_last_active = ss_last_active s\<rparr>) sessionsData\<rparr>)))"

definition loadGroupMessages :: "(nat \<Rightarrow> bool) \<Rightarrow> uuid option \<Rightarrow> remote \<Rightarrow> controller \<Rightarrow> controller" where
  "loadGroupMessages err user db st =
     (case user of
        None \<Rightarrow> st
      | Some uid \<Rightarrow>
          (case query (err 0) (limit 50 (order_desc gm_created_at (group_messages_t db))) of
             Inl e \<Rightarrow> st
           | Inr messagesData \<Rightarrow>
               if messagesData = [] then st\<lparr>groupMessages := []\<rparr>
               else
                 (let userIds = remdups (map gm_user_id messagesData) in
                  case query (err 1) (filter (\<lambda>u. u_id u \<in> set userIds) (users_t db)) of
                    Inl e \<Rightarrow> st
                  | Inr usersData \<Rightarrow>
                      st\<lparr>groupMessages :=
                        rev (map (\<lambda>m.
                          let messageUser = find (\<lambda>u. u_id u = gm_user_id m) usersData in
                          \<lparr>m_id = gm_id m,
                           m_user_id = gm_user_id m,
                           m_user_name = or_default (Option.bind messageUser u_name) ''Unknown'',
                           m_message = gm_message m,
                           m_mentions = (case gm_mentions m of None \<Rightarrow> [] | Some ms \<Rightarrow> ms),
                           m_created_at = gm_created_at m\<rparr>) messagesData)\<rparr>)))"

section \<open>The loaders of the other revision: one query with a foreign-key join\<close>

text \<open>
  The second revision of the file selects the referenced user inside the query
  (\<^verbatim>\<open>friend:users!friends_friend_id_fkey(name, email)\<close>). What the store's join returns
  for a referenced user id is the parameter \<open>fk\<close>.
\<close>

definition loadFriends_join ::
  "(uuid \<Rightarrow> user_row option) \<Rightarrow> (nat \<Rightarrow> bool) \<Rightarrow> uuid option \<Rightarrow> remote \<Rightarrow> controller \<Rightarrow> controller" where
  "loadFriends_join fk err user db st =
     (case user of
        None \<Rightarrow> st
      | Some uid \<Rightarrow>
          (case query (err 0) (filter (\<lambda>f. lk_user_id f = uid) (friends_t db)) of
             Inl e \<Rightarrow> st
           | Inr data \<Rightarrow>
               st\<lparr>friends :=
                 map (\<lambda>f.
                   \<lparr>f_id = lk_id f,
                    f_user_id = lk_user_id f,
                    f_friend_id = lk_friend_id f,
                    f_friend_name = or_default (Option.bind (fk (lk_friend_id f)) u_name) ''Unknown'',
                    f_friend_email = or_default (Option.bind (fk (lk_friend_id f)) u_email) '''',
                    f_created_at = lk_created_at f\<rparr>) data\<rparr>))"

definition loadFriendRequests_join ::
  "(uuid \<Rightarrow> user_row option) \<Rightarrow> (nat \<Rightarrow> bool) \<Rightarrow> uuid option \<Rightarrow> remote \<Rightarrow> controller \<Rightarrow> controller" where
  "loadFriendRequests_join fk err user db st =
     (case user of
        None \<Rightarrow> st
      | Some uid \<Rightarrow>
          (case query (err 0)
                  (filter (\<lambda>r. rq_receiver_id r = uid \<and> rq_status r = Pending) (friend_requests_t db)) of
             Inl e \<Rightarrow> st
           | Inr data \<Rightarrow>
               st\<lparr>friendRequests :=
                 map (\<lambda>r.
                   \<lparr>r_id = rq_id r,
                    r_sender_id = rq_sender_id r,
                    r_receiver_id = rq_receiver_id r,
                    r_sender_name = or_default (Option.bind (fk (rq_sender_id r)) u_name) ''Unknown'',
                    r_sender_email = or_default (Option.bind (fk (rq_sender_id r)) u_email) '''',
                    r_status = rq_status r,
                    r_created_at = rq_created_at r\<rparr>) data\<rparr>))"

definition loadStudySessions_join ::
  "(uuid \<Rightarrow> user_row option) \<Rightarrow> (nat \<Rightarrow> bool) \<Rightarrow> uuid option \<Rightarrow> remote \<Rightarrow> friend list \<Rightarrow>
     controller \<Rightarrow> controller" where
  "loadStudySessions_join fk err user db captured st =
     (case user of
        None \<Rightarrow> st
      | Some uid \<Rightarrow>
          (let friendIds = map f_friend_id captured;
               allUserIds = uid # friendIds in
           case query (err 0) (filter (\<lambda>s. ss_user_id s \<in> set allUserIds) (study_sessions_t db)) of
             Inl e \<Rightarrow> st
           | Inr data \<Rightarrow>
               st\<lparr>studySessions :=
                 map (\<lambda>s.
                   \<lparr>s_id = ss_id s,
                    s_user_id = ss_user_id s,
                    s_user_name = or_default (Option.bind (fk (ss_user_id s)) u_name) ''Unknown'',
                    s_status = ss_status s,
                    s_subject = ss_subject s,
                    s_started_at = ss_started_at s,
                    s_last_active = ss_last_active s\<rparr>) data\<rparr>))"

definition loadGroupMessages_join ::
  "(uuid \<Rightarrow> user_row option) \<Rightarrow> (nat \<Rightarrow> bool) \<Rightarrow> uuid option \<Rightarrow> remote \<Rightarrow> controller \<Rightarrow> controller" where
  "loadGroupMessages_join fk err user db st =
     (case user of
        None \<Rightarrow> st
      | Some uid \<Rightarrow>
          (case query (err 0) (limit 50 (order_desc gm_created_at (group_messages_t db))) of
             Inl e \<Rightarrow> st
           | Inr data \<Rightarrow>
               st\<lparr>groupMessages :=
                 rev (map (\<lambda>m.
                   \<lparr>m_id = gm_id m,
                    m_user_id = gm_user_id m,
                    m_user_name = or_default (Option.bind (fk (gm_user_id m)) u_name) ''Unknown'',
                    m_message = gm_message m,
                    m_mentions = (case gm_mentions m of None \<Rightarrow> [] | Some ms \<Rightarrow> ms),
                    m_created_at = gm_created_at m\<rparr>) data)\<rparr>))"

section \<open>Mutation operations\<close>

text \<open>
  The six operations are the same text in both revisions of the file. Three of them end by
  calling loaders; those take the loaders as arguments and are instantiated once per
  revision below. An operation returns its boolean (when it has one), the remote store
  and the controller's cells as it leaves them.
\<close>

type_synonym loader = "(nat \<Rightarrow> bool) \<Rightarrow> uuid option \<Rightarrow> remote \<Rightarrow> controller \<Rightarrow> controller"

text \<open>
  Modelled from the spec: the insert of \<^verbatim>\<open>sendFriendRequest\<close> names only
  \<^verbatim>\<open>sender_id\<close> and \<^verbatim>\<open>receiver_id\<close>; the table declaration that fills the other columns is
  not in the sources. The status starts as pending (the initial state of the request's
  state machine), the id is a new key and \<^verbatim>\<open>created_at\<close> the store's time.
\<close>

definition new_request :: "remote \<Rightarrow> uuid \<Rightarrow> uuid \<Rightarrow> request_row" where
  "new_request db sender receiver =
     \<lparr>rq_id = fresh_id (map rq_id (friend_requests_t db)),
      rq_sender_id = sender,
      rq_receiver_id = receiver,
      rq_status = Pending,
      rq_created_at = db_now db\<rparr>"

definition sendFriendRequest :: "(nat \<Rightarrow> bool) \<Rightarrow> uuid option \<Rightarrow> remote \<Rightarrow> string \<Rightarrow> bool \<times> remote" where
  "sendFriendRequest err user db email =
     (case user of
        None \<Rightarrow> (False, db)
      | Some uid \<Rightarrow>
          (case single (query (err 0) (filter (\<lambda>u. u_email u = Some email) (users_t db))) of
             Inl userError \<Rightarrow> (False, db)
           | Inr userData \<Rightarrow>
               if u_id userData = uid then (False, db)
               else
                 (case single (query (err 1)
                         (filter (link_between uid (u_id userData)) (friends_t db))) of
                    Inr existingFriend \<Rightarrow> (False, db)
                  | Inl _ \<Rightarrow>
                      if err 2 then (False, db)
                      else
                        (True,
                         db\<lparr>friend_requests_t :=
                           friend_requests_t db @ [new_request db uid (u_id userData)]\<rparr>))))"

text \<open>
  The two rows \<^verbatim>\<open>acceptFriendRequest\<close> inserts, in the order of the array it passes; ids
  and \<^verbatim>\<open>created_at\<close> come from the store.
\<close>

definition new_links :: "remote \<Rightarrow> request_row \<Rightarrow> friend_row list" where
  "new_links db request =
     (let k = fresh_id (map lk_id (friends_t db)) in
      [\<lparr>lk_id = k, lk_user_id = rq_receiver_id request, lk_friend_id = rq_sender_id request,
        lk_created_at = db_now db\<rparr>,
       \<lparr>lk_id = Suc k, lk_user_id = rq_sender_id request, lk_friend_id = rq_receiver_id request,
        lk_created_at = db_now db\<rparr>])"

definition set_status :: "row_id \<Rightarrow> request_status \<Rightarrow> request_row list \<Rightarrow> request_row list" where
  "set_status requestId s rows =
     map (\<lambda>r. if rq_id r = requestId then r\<lparr>rq_status := s\<rparr> else r) rows"

definition acceptFriendRequest_with ::
  "loader \<Rightarrow> loader \<Rightarrow> (nat \<Rightarrow> bool) \<Rightarrow> uuid option \<Rightarrow> remote \<Rightarrow> controller \<Rightarrow> row_id \<Rightarrow>
     bool \<times> remote \<times> controller" where
  "acceptFriendRequest_with loadF loadR err user db st requestId =
     (case user of
        None \<Rightarrow> (False, db, st)
      | Some uid \<Rightarrow>
          (case single (query (err 0) (filter (\<lambda>r. rq_id r = requestId) (friend_requests_t db))) of
             Inl requestError \<Rightarrow> (False, db, st)
           | Inr request \<Rightarrow>
               if err 1 then (False, db, st)
               else
                 (let db1 = db\<lparr>friends_t := friends_t db @ new_links db request\<rparr> in
                  if err 2 then (False, db1, st)
                  else
                    (let db2 = db1\<lparr>friend_requests_t :=
                                 set_status requestId Accepted (friend_requests_t db1)\<rparr>;
                         st1 = loadF (\<lambda>i. err (i + 3)) user db2 st;
                         st2 = loadR (\<lambda>i. err (i + 5)) user db2 st1
                     in (True, db2, st2)))))"

definition rejectFriendRequest_with ::
  "loader \<Rightarrow> (nat \<Rightarrow> bool) \<Rightarrow> uuid option \<Rightarrow> remote \<Rightarrow> controller \<Rightarrow> row_id \<Rightarrow>
     bool \<times> remote \<times> controller" where
  "rejectFriendRequest_with loadR err user db st requestId =
     (case user of
        None \<Rightarrow> (False, db, st)
      | Some uid \<Rightarrow>
          if err 0 then (False, db, st)
          else
            (let db1 = db\<lparr>friend_requests_t :=
                         set_status requestId Rejected (friend_requests_t db)\<rparr>
             in (True, db1, loadR (\<lambda>i. err (i + 1)) user db1 st)))"

text \<open>
  The delete of \<^verbatim>\<open>removeFriend\<close> is one round trip: it errs when the round trip fails
  or the store cannot read the spliced filter, and otherwise removes the rows the filter,
  as the store read it, selects.
\<close>

definition removeFriend_with ::
  "(string \<Rightarrow> error + (friend_row \<Rightarrow> bool)) \<Rightarrow> loader \<Rightarrow> (nat \<Rightarrow> bool) \<Rightarrow> uuid option \<Rightarrow>
     remote \<Rightarrow> controller \<Rightarrow> uuid \<Rightarrow> bool \<times> remote \<times> controller" where
  "removeFriend_with reads loadF err user db st friendId =
     (case user of
        None \<Rightarrow> (False, db, st)
      | Some uid \<Rightarrow>
          if err 0 then (False, db, st)
          else
            (case read_link_filter reads uid friendId of
               Inl error \<Rightarrow> (False, db, st)
             | Inr selected \<Rightarrow>
                 (let db1 = db\<lparr>friends_t := filter (\<lambda>f. \<not> selected f) (friends_t db)\<rparr>
                  in (True, db1, loadF (\<lambda>i. err (i + 1)) user db1 st))))"

text \<open>\<^verbatim>\<open>subject || null\<close>.\<close>

definition or_null :: "string option \<Rightarrow> string option" where
  "or_null v = (case v of None \<Rightarrow> None | Some s \<Rightarrow> if s = [] then None else Some s)"

text \<open>
  Modelled from the spec: the \<^verbatim>\<open>.upsert\<close> call names no conflict target and the
  declaration of \<^verbatim>\<open>study_sessions\<close> is not in the sources; the external interface gives
  "upsert key = user_id". A row of that user takes the payload's columns; with no such row
  one is inserted, its id and \<^verbatim>\<open>started_at\<close> from the store.
\<close>

definition upsert_session ::
  "remote \<Rightarrow> uuid \<Rightarrow> study_status \<Rightarrow> string option \<Rightarrow> timestamp \<Rightarrow> session_row list" where
  "upsert_session db uid status subject last_active =
     (let t = study_sessions_t db in
      if uid \<in> set (map ss_user_id t)
      then map (\<lambda>s. if ss_user_id s = uid
                    then s\<lparr>ss_status := status, ss_subject := subject,
                           ss_last_active := last_active\<rparr>
                    else s) t
      else t @ [\<lparr>ss_id = fresh_id (map ss_id t), ss_user_id = uid, ss_status = status,
                 ss_subject = subject, ss_started_at = db_now db,
                 ss_last_active = last_active\<rparr>])"

text \<open>\<open>now\<close> is the reading of the client's clock, \<^verbatim>\<open>new Date().toISOString()\<close>.\<close>

definition updateStudyStatus ::
  "(nat \<Rightarrow> bool) \<Rightarrow> timestamp \<Rightarrow> uuid option \<Rightarrow> remote \<Rightarrow> study_status \<Rightarrow> string option \<Rightarrow> remote" where
  "updateStudyStatus err now user db status subject =
     (case user of
        None \<Rightarrow> db
      | Some uid \<Rightarrow>
          if err 0 then db
          else db\<lparr>study_sessions_t := upsert_session db uid status (or_null subject) now\<rparr>)"

definition sendGroupMessage ::
  "(nat \<Rightarrow> bool) \<Rightarrow> uuid option \<Rightarrow> remote \<Rightarrow> string \<Rightarrow> uuid list option \<Rightarrow> remote" where
  "sendGroupMessage err user db message mentions =
     (case user of
        None \<Rightarrow> db
      | Some uid \<Rightarrow>
          if err 0 then db
          else
            db\<lparr>group_messages_t := group_messages_t db @
              [\<lparr>gm_id = fresh_id (map gm_id (group_messages_t db)),
                gm_user_id = uid,
                gm_message = message,
                gm_mentions = Some (case mentions of None \<Rightarrow> [] | Some ms \<Rightarrow> ms),
                gm_created_at = db_now db\<rparr>]\<rparr>)"

subsection \<open>The operations of each revision\<close>

definition acceptFriendRequest ::
  "(nat \<Rightarrow> bool) \<Rightarrow> uuid option \<Rightarrow> remote \<Rightarrow> controller \<Rightarrow> row_id \<Rightarrow> bool \<times> remote \<times> controller" where
  "acceptFriendRequest = acceptFriendRequest_with loadFriends loadFriendRequests"

definition rejectFriendRequest ::
  "(nat \<Rightarrow> bool) \<Rightarrow> uuid option \<Rightarrow> remote \<Rightarrow> controller \<Rightarrow> row_id \<Rightarrow> bool \<times> remote \<times> controller" where
  "rejectFriendRequest = rejectFriendRequest_with loadFriendRequests"

definition removeFriend ::
  "(string \<Rightarrow> error + (friend_row \<Rightarrow> bool)) \<Rightarrow> (nat \<Rightarrow> bool) \<Rightarrow> uuid option \<Rightarrow> remote \<Rightarrow>
     controller \<Rightarrow> uuid \<Rightarrow> bool \<times> remote \<times> controller" where
  "removeFriend reads = removeFriend_with reads loadFriends"

definition acceptFriendRequest_join ::
  "(uuid \<Rightarrow> user_row option) \<Rightarrow> (nat \<Rightarrow> bool) \<Rightarrow> uuid option \<Rightarrow> remote \<Rightarrow> controller \<Rightarrow> row_id \<Rightarrow>
     bool \<times> remote \<times> controller" where
  "acceptFriendRequest_join fk =
     acceptFriendRequest_with (loadFriends_join fk) (loadFriendRequests_join fk)"

definition rejectFriendRequest_join ::
  "(uuid \<Rightarrow> user_row option) \<Rightarrow> (nat \<Rightarrow> bool) \<Rightarrow> uuid option \<Rightarrow> remote \<Rightarrow> controller \<Rightarrow> row_id \<Rightarrow>
     bool \<times> remote \<times> controller" where
  "rejectFriendRequest_join fk = rejectFriendRequest_with (loadFriendRequests_join fk)"

definition removeFriend_join ::
  "(uuid \<Rightarrow> user_row option) \<Rightarrow> (string \<Rightarrow> error + (friend_row \<Rightarrow> bool)) \<Rightarrow> (nat \<Rightarrow> bool) \<Rightarrow>
     uuid option \<Rightarrow> remote \<Rightarrow> controller \<Rightarrow> uuid \<Rightarrow> bool \<times> remote \<times> controller" where
  "removeFriend_join fk reads = removeFriend_with reads (loadFriends_join fk)"

section \<open>Lifecycle: mount, the effect on the current user, unmount\<close>

text \<open>
  \<^verbatim>\<open>loadFriendsData\<close> starts the four loaders together; each writes one cell of its own,
  and \<^verbatim>\<open>loadStudySessions\<close> reads the \<^verbatim>\<open>friends\<close> cell of the render that created it.
  Round trips 0-1, 2-3, 4-5 and 6-7 are those of the four loaders.
\<close>

type_synonym session_loader =
  "(nat \<Rightarrow> bool) \<Rightarrow> uuid option \<Rightarrow> remote \<Rightarrow> friend list \<Rightarrow> controller \<Rightarrow> controller"

definition loadFriendsData_with ::
  "loader \<Rightarrow> loader \<Rightarrow> session_loader \<Rightarrow> loader \<Rightarrow> (nat \<Rightarrow> bool) \<Rightarrow> uuid option \<Rightarrow> remote \<Rightarrow>
     controller \<Rightarrow> controller" where
  "loadFriendsData_with loadF loadR loadS loadG err user db st =
     (case user of
        None \<Rightarrow> st
      | Some uid \<Rightarrow>
          (let st0 = st\<lparr>isLoading := True\<rparr>;
               st1 = loadF err user db st0;
               st2 = loadR (\<lambda>i. err (i + 2)) user db st1;
               st3 = loadS (\<lambda>i. err (i + 4)) user db (friends st) st2;
               st4 = loadG (\<lambda>i. err (i + 6)) user db st3
           in st4\<lparr>isLoading := False\<rparr>))"

text \<open>
  The component's state beyond its cells: the subscriptions that are active on the client
  (by channel name) and the cleanup function React holds for the effect, if the effect
  returned one. A cleanup is the list of subscriptions it unsubscribes.
\<close>

record provider =
  ctrl :: controller
  channels :: "string list"
  cleanup :: "string list option"

definition initial :: provider where
  "initial =
     \<lparr>ctrl = \<lparr>friends = [], friendRequests = [], studySessions = [], groupMessages = [],
              isLoading = False\<rparr>,
      channels = [],
      cleanup = None\<rparr>"

text \<open>
  \<^verbatim>\<open>setupRealtimeSubscriptions\<close> subscribes three channels and returns the function that
  unsubscribes them.
\<close>

definition setupRealtimeSubscriptions ::
  "uuid option \<Rightarrow> string list \<Rightarrow> string list \<times> string list option" where
  "setupRealtimeSubscriptions user subs =
     (case user of
        None \<Rightarrow> (subs, None)
      | Some uid \<Rightarrow>
          (subs @ [''friend_requests'', ''study_sessions'', ''group_messages''],
           Some [''friend_requests'', ''study_sessions'', ''group_messages'']))"

text \<open>
  The body of \<^verbatim>\<open>useEffect(() => { ... }, [user])\<close>. Its second component is what the
  arrow function returns to React: the body has no \<^verbatim>\<open>return\<close>, so the value of the call
  \<^verbatim>\<open>setupRealtimeSubscriptions()\<close> is dropped and React receives \<^verbatim>\<open>undefined\<close>.
\<close>

definition effect_with ::
  "loader \<Rightarrow> loader \<Rightarrow> session_loader \<Rightarrow> loader \<Rightarrow> (nat \<Rightarrow> bool) \<Rightarrow> uuid option \<Rightarrow> remote \<Rightarrow>
     provider \<Rightarrow> provider \<times> string list option" where
  "effect_with loadF loadR loadS loadG err user db p =
     (case user of
        Some uid \<Rightarrow>
          (let c = loadFriendsData_with loadF loadR loadS loadG err user db (ctrl p);
               subscribed = setupRealtimeSubscriptions user (channels p)
           in (p\<lparr>ctrl := c, channels := fst subscribed\<rparr>, None))
      | None \<Rightarrow>
          (p\<lparr>ctrl := (ctrl p)\<lparr>friends := [], friendRequests := [], studySessions := [],
                              groupMessages := []\<rparr>\<rparr>,
           None))"

text \<open>
  React's side of the contract: before an effect runs again, and when the component
  unmounts, the cleanup the previous run returned is called, if there is one.
\<close>

definition run_cleanup :: "provider \<Rightarrow> provider" where
  "run_cleanup p =
     (case cleanup p of
        None \<Rightarrow> p
      | Some subs \<Rightarrow> p\<lparr>channels := foldr remove1 subs (channels p), cleanup := None\<rparr>)"

definition user_changed_with ::
  "loader \<Rightarrow> loader \<Rightarrow> session_loader \<Rightarrow> loader \<Rightarrow> (nat \<Rightarrow> bool) \<Rightarrow> uuid option \<Rightarrow> remote \<Rightarrow>
     provider \<Rightarrow> provider" where
  "user_changed_with loadF loadR loadS loadG err user db p =
     (let p1 = run_cleanup p;
          r = effect_with loadF loadR loadS loadG err user db p1
      in (fst r)\<lparr>cleanup := snd r\<rparr>)"

definition mount_with ::
  "loader \<Rightarrow> loader \<Rightarrow> session_loader \<Rightarrow> loader \<Rightarrow> (nat \<Rightarrow> bool) \<Rightarrow> uuid option \<Rightarrow> remote \<Rightarrow>
     provider" where
  "mount_with loadF loadR loadS loadG err user db =
     user_changed_with loadF loadR loadS loadG err user db initial"

definition unmount :: "provider \<Rightarrow> provider" where
  "unmount p = run_cleanup p"

text \<open>The lifecycle of each revision.\<close>

definition user_changed :: "(nat \<Rightarrow> bool) \<Rightarrow> uuid option \<Rightarrow> remote \<Rightarrow> provider \<Rightarrow> provider" where
  "user_changed =
     user_changed_with loadFriends loadFriendRequests loadStudySessions loadGroupMessages"

definition mount :: "(nat \<Rightarrow> bool) \<Rightarrow> uuid option \<Rightarrow> remote \<Rightarrow> provider" where
  "mount = mount_with loadFriends loadFriendRequests loadStudySessions loadGroupMessages"

definition user_changed_join ::
  "(uuid \<Rightarrow> user_row option) \<Rightarrow> (nat \<Rightarrow> bool) \<Rightarrow> uuid option \<Rightarrow> remote \<Rightarrow> provider \<Rightarrow> provider" where
  "user_changed_join fk =
     user_changed_with (loadFriends_join fk) (loadFriendRequests_join fk)
       (loadStudySessions_join fk) (loadGroupMessages_join fk)"

definition mount_join ::
  "(uuid \<Rightarrow> user_row option) \<Rightarrow> (nat \<Rightarrow> bool) \<Rightarrow> uuid option \<Rightarrow> remote \<Rightarrow> provider" where
  "mount_join fk =
     mount_with (loadFriends_join fk) (loadFriendRequests_join fk)
       (loadStudySessions_join fk) (loadGroupMessages_join fk)"

section \<open>Observations and example states\<close>

text \<open>The presence rows of one user.\<close>

definition presence_of :: "remote \<Rightarrow> uuid \<Rightarrow> session_row list" where
  "presence_of db uid = filter (\<lambda>s. ss_user_id s = uid) (study_sessions_t db)"

text \<open>
  A sequence of \<^verbatim>\<open>updateStudyStatus\<close> calls by one user, each with the outcome of its
  round trip, the reading of the client's clock and its arguments; the result is the
  remote store after each call.
\<close>

fun run_updates ::
  "uuid \<Rightarrow> remote \<Rightarrow> ((nat \<Rightarrow> bool) \<times> timestamp \<times> study_status \<times> string option) list \<Rightarrow>
     remote list" where
  "run_updates uid db [] = []"
| "run_updates uid db ((err, now, status, subject) # calls) =
     (let db' = updateStudyStatus err now (Some uid) db status subject
      in db' # run_updates uid db' calls)"

text \<open>
  The join of a store whose foreign keys point into the directory: the first directory
  entry with the referenced id, as the separate directory query finds it.
\<close>

definition directory_join :: "remote \<Rightarrow> uuid \<Rightarrow> user_row option" where
  "directory_join db uid = find (\<lambda>u. u_id u = uid) (users_t db)"

text \<open>Three directory entries and two stores: one with no social data yet, one in use.\<close>

definition alice :: user_row where
  "alice = \<lparr>u_id = ''a'', u_name = Some ''Alice'', u_email = Some ''a@x''\<rparr>"

definition bob :: user_row where
  "bob = \<lparr>u_id = ''b'', u_name = Some ''Bob'', u_email = Some ''b@x''\<rparr>"

definition carol :: user_row where
  "carol = \<lparr>u_id = ''c'', u_name = None, u_email = Some ''c@x''\<rparr>"

definition db_new :: remote where
  "db_new =
     \<lparr>users_t = [alice, bob, carol], friends_t = [], friend_requests_t = [],
      study_sessions_t = [], group_messages_t = [], db_now = 5\<rparr>"

definition db_busy :: remote where
  "db_busy =
     \<lparr>users_t = [alice, bob, carol],
      friends_t =
        [\<lparr>lk_id = 1, lk_user_id = ''b'', lk_friend_id = ''a'', lk_created_at = 2\<rparr>,
         \<lparr>lk_id = 2, lk_user_id = ''a'', lk_friend_id = ''b'', lk_created_at = 2\<rparr>],
      friend_requests_t =
        [\<lparr>rq_id = 1, rq_sender_id = ''a'', rq_receiver_id = ''b'', rq_status = Accepted,
          rq_created_at = 1\<rparr>,
         \<lparr>rq_id = 2, rq_sender_id = ''c'', rq_receiver_id = ''a'', rq_status = Pending,
          rq_created_at = 3\<rparr>],
      study_sessions_t =
        [\<lparr>ss_id = 1, ss_user_id = ''a'', ss_status = Studying, ss_subject = Some ''maths'',
          ss_started_at = 3, ss_last_active = 4\<rparr>],
      group_messages_t =
        [\<lparr>gm_id = 1, gm_user_id = ''b'', gm_message = ''hello'', gm_mentions = None,
          gm_created_at = 3\<rparr>,
         \<lparr>gm_id = 2, gm_user_id = ''a'', gm_message = ''first'', gm_mentions = Some [''b''],
          gm_created_at = 1\<rparr>,
         \<lparr>gm_id = 3, gm_user_id = ''c'', gm_message = ''again'', gm_mentions = Some [],
          gm_created_at = 4\<rparr>],
      db_now = 5\<rparr>"

text \<open>A store in which the pair a, b is linked among links to and between others.\<close>

definition db_circle :: remote where
  "db_circle =
     \<lparr>users_t = [alice, bob, carol],
      friends_t =
        [\<lparr>lk_id = 1, lk_user_id = ''a'', lk_friend_id = ''c'', lk_created_at = 1\<rparr>,
         \<lparr>lk_id = 2, lk_user_id = ''b'', lk_friend_id = ''a'', lk_created_at = 2\<rparr>,
         \<lparr>lk_id = 3, lk_user_id = ''c'', lk_friend_id = ''b'', lk_created_at = 2\<rparr>,
         \<lparr>lk_id = 4, lk_user_id = ''a'', lk_friend_id = ''b'', lk_created_at = 2\<rparr>,
         \<lparr>lk_id = 5, lk_user_id = ''c'', lk_friend_id = ''a'', lk_created_at = 3\<rparr>,
         \<lparr>lk_id = 6, lk_user_id = ''b'', lk_friend_id = ''c'', lk_created_at = 4\<rparr>],
      friend_requests_t = [], study_sessions_t = [], group_messages_t = [], db_now = 5\<rparr>"

text \<open>
  A store that answers a filter it cannot read with an error. The filter spliced from the
  id \<^verbatim>\<open>b,c\<close> is such a one: \<^verbatim>\<open>and(user_id.eq.a,friend_id.eq.b,c)\<close> has a third item
  that is no condition.
\<close>

definition refuses :: "string \<Rightarrow> error + (friend_row \<Rightarrow> bool)" where
  "refuses s = Inl BadFilter"

text \<open>Cells holding what an earlier load left there.\<close>

definition st_stale :: controller where
  "st_stale =
     \<lparr>friends =
        [\<lparr>f_id = 9, f_user_id = ''a'', f_friend_id = ''c'', f_friend_name = ''Unknown'',
          f_friend_email = ''c@x'', f_created_at = 0\<rparr>],
      friendRequests = [],
      studySessions = [],
      groupMessages =
        [\<lparr>m_id = 7, m_user_id = ''c'', m_user_name = ''Unknown'', m_message = ''old'',
          m_mentions = [], m_created_at = 0\<rparr>],
      isLoading = False\<rparr>"

section \<open>Auxiliary facts\<close>

lemma query_fault [simp]: "query True rows = Inl RemoteError"
  by (simp add: query_def)

lemma query_ok [simp]: "query False rows = Inr rows"
  by (simp add: query_def)

lemma foldr_max_ge: "x \<in> set ids \<Longrightarrow> x \<le> foldr max ids (0::nat)"
  by (induction ids) (auto simp: max_def)

lemma fresh_id_notin: "fresh_id ids \<notin> set ids"
  using foldr_max_ge [of "fresh_id ids" ids] by (auto simp: fresh_id_def)

lemma filter_fresh_id: "filter (\<lambda>r. k r = fresh_id (map k rows)) rows = []"
  using fresh_id_notin [of "map k rows"] by (auto simp: filter_empty_conv image_iff)

lemma rev_take_rev: "rev (take n (rev xs)) = drop (length xs - n) xs"
  by (simp add: rev_take)

lemma find_in_filter:
  "x \<in> S \<Longrightarrow> find (\<lambda>u. k u = x) (filter (\<lambda>u. k u \<in> S) us) = find (\<lambda>u. k u = x) us"
  by (induction us) auto

lemma sorted_drop_sort_key: "sorted (map k (drop n (sort_key k xs)))"
  by (simp add: drop_map [symmetric] sorted_wrt_drop)

lemma sort_key_split_le:
  assumes "x \<in> set (take n (sort_key k xs))" and "y \<in> set (drop n (sort_key k xs))"
  shows "k x \<le> k y"
proof -
  have "sorted (map k (take n (sort_key k xs) @ drop n (sort_key k xs)))"
    by simp
  then have "\<forall>a \<in> set (map k (take n (sort_key k xs))).
               \<forall>b \<in> set (map k (drop n (sort_key k xs))). a \<le> b"
    unfolding map_append sorted_append by blast
  with assms show ?thesis
    by simp
qed

lemma single_none [simp]:
  "single (query fault []) = Inl (if fault then RemoteError else NotSingleRow)"
  by (simp add: query_def)

lemma single_many [simp]:
  "single (query fault (x # y # rows)) = Inl (if fault then RemoteError else NotSingleRow)"
  by (simp add: query_def)

lemma filter_set_status:
  "filter (\<lambda>r. rq_id r = i) (set_status i s rows) =
     map (\<lambda>r. r\<lparr>rq_status := s\<rparr>) (filter (\<lambda>r. rq_id r = i) rows)"
  by (induction rows) (simp_all add: set_status_def)

lemma loadFriendRequests_friends: "friends (loadFriendRequests err user db st) = friends st"
  by (simp add: loadFriendRequests_def query_def Let_def split: option.splits)

lemma loadFriendRequests_join_friends:
  "friends (loadFriendRequests_join fk err user db st) = friends st"
  by (simp add: loadFriendRequests_join_def query_def split: option.splits)

section \<open>Lifecycle of the mirrors\<close>

text \<open>
  C9. The four mirrors are empty when the component is created, and the effect run for an
  absent user leaves all four empty in one step, whatever they held and whichever
  revision's loaders are in use.
\<close>

theorem mirrors_empty_on_mount_and_teardown:
  "friends (ctrl initial) = [] \<and> friendRequests (ctrl initial) = [] \<and>
   studySessions (ctrl initial) = [] \<and> groupMessages (ctrl initial) = [] \<and>
   friends (ctrl (user_changed_with loadF loadR loadS loadG err None db p)) = [] \<and>
   friendRequests (ctrl (user_changed_with loadF loadR loadS loadG err None db p)) = [] \<and>
   studySessions (ctrl (user_changed_with loadF loadR loadS loadG err None db p)) = [] \<and>
   groupMessages (ctrl (user_changed_with loadF loadR loadS loadG err None db p)) = []"
  by (simp add: initial_def user_changed_with_def effect_with_def run_cleanup_def
      split: option.splits)

text \<open>
  C8. The claim asks that the three subscriptions of a session are gone once the session
  ends. The effect never hands React the unsubscribing function (it calls
  \<^verbatim>\<open>setupRealtimeSubscriptions\<close> and drops the result), so no cleanup is registered: after
  a session start on a fresh component, both the unmount and the change to an absent user
  leave the three channels subscribed.
\<close>

theorem subscriptions_survive_teardown:
  "channels (unmount (mount_with loadF loadR loadS loadG err (Some uid) db)) =
     [''friend_requests'', ''study_sessions'', ''group_messages''] \<and>
   channels (user_changed_with loadF loadR loadS loadG err' None db'
               (mount_with loadF loadR loadS loadG err (Some uid) db)) =
     [''friend_requests'', ''study_sessions'', ''group_messages'']"
  by (simp add: unmount_def mount_with_def user_changed_with_def effect_with_def
      run_cleanup_def setupRealtimeSubscriptions_def initial_def Let_def)

section \<open>Loaders\<close>

text \<open>
  C3. A loader whose fetch comes back with an error returns the controller's cells as it
  found them. In the revision with two round trips this holds for the first fetch and for
  the directory lookup, which is issued when the first fetch returned rows; the revision
  with the join has the one fetch.
\<close>

theorem loader_error_keeps_mirror:
  "(err 0 \<longrightarrow> loadFriends err user db st = st) \<and>
   (user = Some uid \<and> filter (\<lambda>f. lk_user_id f = uid) (friends_t db) \<noteq> [] \<and> err 1 \<longrightarrow>
      loadFriends err user db st = st) \<and>
   (err 0 \<longrightarrow> loadFriendRequests err user db st = st) \<and>
   (user = Some uid \<and>
    filter (\<lambda>r. rq_receiver_id r = uid \<and> rq_status r = Pending) (friend_requests_t db) \<noteq> [] \<and>
    err 1 \<longrightarrow>
      loadFriendRequests err user db st = st) \<and>
   (err 0 \<longrightarrow> loadStudySessions err user db captured st = st) \<and>
   (user = Some uid \<and>
    filter (\<lambda>s. ss_user_id s \<in> set (uid # map f_friend_id captured)) (study_sessions_t db) \<noteq> [] \<and>
    err 1 \<longrightarrow>
      loadStudySessions err user db captured st = st) \<and>
   (err 0 \<longrightarrow> loadGroupMessages err user db st = st) \<and>
   (user = Some uid \<and> limit 50 (order_desc gm_created_at (group_messages_t db)) \<noteq> [] \<and> err 1 \<longrightarrow>
      loadGroupMessages err user db st = st) \<and>
   (err 0 \<longrightarrow> loadFriends_join fk err user db st = st) \<and>
   (err 0 \<longrightarrow> loadFriendRequests_join fk err user db st = st) \<and>
   (err 0 \<longrightarrow> loadStudySessions_join fk err user db captured st = st) \<and>
   (err 0 \<longrightarrow> loadGroupMessages_join fk err user db st = st)"
  by (cases "err 0"; cases "err 1")
     (simp_all add: loadFriends_def loadFriendRequests_def loadStudySessions_def
      loadGroupMessages_def loadFriends_join_def loadFriendRequests_join_def
      loadStudySessions_join_def loadGroupMessages_join_def
      split: option.splits)

theorem loader_error_keeps_mirror_witness:
  "filter (\<lambda>f. lk_user_id f = ''a'') (friends_t db_busy) \<noteq> [] \<and>
   filter (\<lambda>r. rq_receiver_id r = ''a'' \<and> rq_status r = Pending) (friend_requests_t db_busy) \<noteq> [] \<and>
   filter (\<lambda>s. ss_user_id s \<in> set (''a'' # map f_friend_id (friends st_stale))) (study_sessions_t db_busy) \<noteq> [] \<and>
   limit 50 (order_desc gm_created_at (group_messages_t db_busy)) \<noteq> [] \<and>
   loadFriends (\<lambda>i. i = 1) (Some ''a'') db_busy st_stale = st_stale \<and>
   loadFriendRequests (\<lambda>i. i = 1) (Some ''a'') db_busy st_stale = st_stale \<and>
   loadStudySessions (\<lambda>i. i = 1) (Some ''a'') db_busy (friends st_stale) st_stale = st_stale \<and>
   loadGroupMessages (\<lambda>i. i = 1) (Some ''a'') db_busy st_stale = st_stale \<and>
   loadFriends (\<lambda>i. True) (Some ''a'') db_busy st_stale = st_stale \<and>
   loadFriends_join Map.empty (\<lambda>i. True) (Some ''a'') db_busy st_stale = st_stale \<and>
   loadFriendRequests_join Map.empty (\<lambda>i. True) (Some ''a'') db_busy st_stale = st_stale \<and>
   loadStudySessions_join Map.empty (\<lambda>i. True) (Some ''a'') db_busy (friends st_stale) st_stale = st_stale \<and>
   loadGroupMessages_join Map.empty (\<lambda>i. True) (Some ''a'') db_busy st_stale = st_stale"
proof -
  have nonempty:
    "filter (\<lambda>f. lk_user_id f = ''a'') (friends_t db_busy) \<noteq> []"
    "filter (\<lambda>r. rq_receiver_id r = ''a'' \<and> rq_status r = Pending) (friend_requests_t db_busy) \<noteq> []"
    "filter (\<lambda>s. ss_user_id s \<in> set (''a'' # map f_friend_id (friends st_stale))) (study_sessions_t db_busy) \<noteq> []"
    "limit 50 (order_desc gm_created_at (group_messages_t db_busy)) \<noteq> []"
    by (simp_all add: db_busy_def st_stale_def limit_def order_desc_def)
  note second = loader_error_keeps_mirror
    [where err = "\<lambda>i. i = 1" and user = "Some ''a''" and uid = "''a''" and db = db_busy
       and st = st_stale and captured = "friends st_stale"]
  note first = loader_error_keeps_mirror
    [where err = "\<lambda>i. True" and user = "Some ''a''" and db = db_busy
       and st = st_stale and captured = "friends st_stale" and fk = Map.empty]
  show ?thesis
    using nonempty second first by simp
qed

text \<open>
  C4. When both fetches of the loader succeed (the join revision has one), the mirror of
  the group messages is the table's last 50 rows in ascending order of \<^verbatim>\<open>created_at\<close>,
  fewer when the table is shorter: at most 50 entries, oldest first, and none of the rows
  left out is newer than a row taken.
\<close>

theorem loadGroupMessages_newest_window:
  assumes "\<not> err 0" and "\<not> err 1"
  shows "let t = group_messages_t db;
             newest = drop (length t - 50) (sort_key gm_created_at t);
             older = take (length t - 50) (sort_key gm_created_at t);
             ms = groupMessages (loadGroupMessages err (Some uid) db st);
             ms' = groupMessages (loadGroupMessages_join fk err (Some uid) db st)
         in length ms \<le> 50 \<and> sorted (map m_created_at ms) \<and>
            map (\<lambda>m. (m_id m, m_user_id m, m_message m, m_created_at m)) ms =
              map (\<lambda>m. (gm_id m, gm_user_id m, gm_message m, gm_created_at m)) newest \<and>
            length ms' \<le> 50 \<and> sorted (map m_created_at ms') \<and>
            map (\<lambda>m. (m_id m, m_user_id m, m_message m, m_created_at m)) ms' =
              map (\<lambda>m. (gm_id m, gm_user_id m, gm_message m, gm_created_at m)) newest \<and>
            (\<forall>old \<in> set older. \<forall>m \<in> set newest. gm_created_at old \<le> gm_created_at m)"
proof -
  let ?t = "group_messages_t db"
  let ?newest = "drop (length ?t - 50) (sort_key gm_created_at ?t)"
  have window: "rev (limit 50 (order_desc gm_created_at ?t)) = ?newest"
    by (simp add: limit_def order_desc_def rev_take_rev)
  have len: "length ?newest \<le> 50"
    by simp
  have srt: "sorted (map gm_created_at ?newest)"
    by (rule sorted_drop_sort_key)
  have A: "map (\<lambda>m. (m_id m, m_user_id m, m_message m, m_created_at m))
             (groupMessages (loadGroupMessages err (Some uid) db st)) =
           map (\<lambda>m. (gm_id m, gm_user_id m, gm_message m, gm_created_at m)) ?newest"
    using assms unfolding window [symmetric]
    by (simp add: loadGroupMessages_def Let_def rev_map comp_def)
  have B: "map (\<lambda>m. (m_id m, m_user_id m, m_message m, m_created_at m))
             (groupMessages (loadGroupMessages_join fk err (Some uid) db st)) =
           map (\<lambda>m. (gm_id m, gm_user_id m, gm_message m, gm_created_at m)) ?newest"
    using assms unfolding window [symmetric]
    by (simp add: loadGroupMessages_join_def rev_map comp_def)
  have proj: "length ms \<le> 50 \<and> sorted (map m_created_at ms)"
    if eq: "map (\<lambda>m. (m_id m, m_user_id m, m_message m, m_created_at m)) ms =
            map (\<lambda>m. (gm_id m, gm_user_id m, gm_message m, gm_created_at m)) ?newest"
    for ms :: "group_message list"
  proof -
    from eq have "length ms = length ?newest"
      by (rule map_eq_imp_length_eq)
    moreover from eq have
      "map (\<lambda>p. snd (snd (snd p)))
         (map (\<lambda>m. (m_id m, m_user_id m, m_message m, m_created_at m)) ms) =
       map (\<lambda>p. snd (snd (snd p)))
         (map (\<lambda>m. (gm_id m, gm_user_id m, gm_message m, gm_created_at m)) ?newest)"
      by simp
    then have "map m_created_at ms = map gm_created_at ?newest"
      by (simp add: comp_def)
    ultimately show ?thesis
      using len srt by simp
  qed
  show ?thesis
    using A B proj [OF A] proj [OF B]
      sort_key_split_le [of _ "length ?t - 50" gm_created_at ?t]
    by (simp add: Let_def)
qed

theorem loadGroupMessages_newest_window_witness:
  "map m_message (groupMessages (loadGroupMessages (\<lambda>i. False) (Some ''a'') db_busy st_stale)) =
     [''first'', ''hello'', ''again''] \<and>
   map m_created_at (groupMessages (loadGroupMessages (\<lambda>i. False) (Some ''a'') db_busy st_stale)) =
     [1, 3, 4] \<and>
   length (groupMessages (loadGroupMessages (\<lambda>i. False) (Some ''a'') db_busy st_stale)) \<le> 50 \<and>
   sorted (map m_created_at (groupMessages (loadGroupMessages (\<lambda>i. False) (Some ''a'') db_busy st_stale)))"
proof -
  note w = loadGroupMessages_newest_window
    [where err = "\<lambda>i. False" and uid = "''a''" and db = db_busy and st = st_stale
       and fk = Map.empty]
  have sorted_table:
    "sort_key gm_created_at (group_messages_t db_busy) =
       [group_messages_t db_busy ! 1, group_messages_t db_busy ! 0, group_messages_t db_busy ! 2]"
    by (simp add: db_busy_def)
  have "map (\<lambda>m. (m_id m, m_user_id m, m_message m, m_created_at m))
          (groupMessages (loadGroupMessages (\<lambda>i. False) (Some ''a'') db_busy st_stale)) =
        [(2, ''a'', ''first'', 1), (1, ''b'', ''hello'', 3), (3, ''c'', ''again'', 4)]"
    using w unfolding sorted_table by (simp add: Let_def db_busy_def)
  then have
    "map (\<lambda>p. fst (snd (snd p))) (map (\<lambda>m. (m_id m, m_user_id m, m_message m, m_created_at m))
          (groupMessages (loadGroupMessages (\<lambda>i. False) (Some ''a'') db_busy st_stale))) =
      [''first'', ''hello'', ''again'']"
    "map (\<lambda>p. snd (snd (snd p))) (map (\<lambda>m. (m_id m, m_user_id m, m_message m, m_created_at m))
          (groupMessages (loadGroupMessages (\<lambda>i. False) (Some ''a'') db_busy st_stale))) =
      [1, 3, 4]"
    by simp_all
  then have "map m_message (groupMessages (loadGroupMessages (\<lambda>i. False) (Some ''a'') db_busy st_stale)) =
     [''first'', ''hello'', ''again'']"
    "map m_created_at (groupMessages (loadGroupMessages (\<lambda>i. False) (Some ''a'') db_busy st_stale)) =
     [1, 3, 4]"
    by (simp_all add: comp_def)
  then show ?thesis
    using w by (simp add: Let_def)
qed

section \<open>Mutations\<close>

lemma plain_ids_read:
  "plain_id a \<Longrightarrow> plain_id b \<Longrightarrow> read_link_filter reads a b = Inr (link_between a b)"
  by (simp add: read_link_filter_def)

lemma not_link_between:
  "(\<not> link_between a b f) = ((lk_user_id f, lk_friend_id f) \<notin> {(a, b), (b, a)})"
  by (auto simp: link_between_def)

lemma removeFriend_with_plain:
  assumes "plain_id uid" and "plain_id x" and "\<not> err 0"
  shows "removeFriend_with reads loadF err (Some uid) db st x =
           (True,
            db\<lparr>friends_t :=
              filter (\<lambda>f. (lk_user_id f, lk_friend_id f) \<notin> {(uid, x), (x, uid)}) (friends_t db)\<rparr>,
            loadF (\<lambda>i. err (i + 1)) (Some uid)
              (db\<lparr>friends_t :=
                 filter (\<lambda>f. (lk_user_id f, lk_friend_id f) \<notin> {(uid, x), (x, uid)}) (friends_t db)\<rparr>)
              st)"
  using assms
  by (simp add: removeFriend_with_def plain_ids_read Let_def not_link_between
      del: insert_iff empty_iff)

text \<open>
  C5, as amended. Let the caller's id and \<open>x\<close> be plain ids (letters, digits, \<^verbatim>\<open>-\<close> and
  \<^verbatim>\<open>_\<close>, as the ids the store issues) and the delete round trip succeed. Then
  \<^verbatim>\<open>removeFriend\<close> reports success; the store afterwards holds no row with user id the
  caller and friend id \<open>x\<close> and none with user id \<open>x\<close> and friend id the caller; every other
  row of the friends collection is still there, in its place, and nothing else in the
  store has changed; when neither of the two kinds of row existed the store is unchanged.
  A second call right after the first reports success and leaves the store as the first
  left it. This holds with either revision's loader and whatever the store makes of
  other filter strings.
\<close>

theorem removeFriend_deletes_both_and_is_idempotent:
  assumes "plain_id uid" and "plain_id x" and "\<not> err 0" and "\<not> err' 0"
  shows "let r = removeFriend_with reads loadF err (Some uid) db st x;
             db1 = fst (snd r);
             r' = removeFriend_with reads loadF' err' (Some uid) db1 st' x;
             pair = (\<lambda>f. (lk_user_id f, lk_friend_id f))
         in fst r \<and>
            (uid, x) \<notin> set (map pair (friends_t db1)) \<and>
            (x, uid) \<notin> set (map pair (friends_t db1)) \<and>
            friends_t db1 = filter (\<lambda>f. pair f \<noteq> (uid, x) \<and> pair f \<noteq> (x, uid)) (friends_t db) \<and>
            db1\<lparr>friends_t := friends_t db\<rparr> = db \<and>
            ((uid, x) \<notin> set (map pair (friends_t db)) \<and> (x, uid) \<notin> set (map pair (friends_t db))
               \<longrightarrow> db1 = db) \<and>
            fst r' \<and> fst (snd r') = db1"
proof -
  let ?keep = "\<lambda>f. (lk_user_id f, lk_friend_id f) \<notin> {(uid, x), (x, uid)}"
  let ?db1 = "db\<lparr>friends_t := filter ?keep (friends_t db)\<rparr>"
  have first: "removeFriend_with reads loadF err (Some uid) db st x =
                 (True, ?db1, loadF (\<lambda>i. err (i + 1)) (Some uid) ?db1 st)"
    using assms(1-3) by (rule removeFriend_with_plain)
  have again: "filter ?keep (friends_t ?db1) = friends_t ?db1"
    by simp
  have second: "removeFriend_with reads loadF' err' (Some uid) ?db1 st' x =
                  (True, ?db1, loadF' (\<lambda>i. err' (i + 1)) (Some uid) ?db1 st')"
    using assms(1,2,4) again
      removeFriend_with_plain [where err = err' and reads = reads and loadF = loadF'
        and db = ?db1 and st = st' and uid = uid and x = x]
    by simp
  have gone: "(uid, x) \<notin> set (map (\<lambda>f. (lk_user_id f, lk_friend_id f)) (friends_t ?db1))"
    "(x, uid) \<notin> set (map (\<lambda>f. (lk_user_id f, lk_friend_id f)) (friends_t ?db1))"
    by auto
  have kept: "friends_t ?db1 =
      filter (\<lambda>f. (lk_user_id f, lk_friend_id f) \<noteq> (uid, x) \<and>
                  (lk_user_id f, lk_friend_id f) \<noteq> (x, uid)) (friends_t db)"
    by simp
  have frame: "?db1\<lparr>friends_t := friends_t db\<rparr> = db"
    by simp
  have none: "?db1 = db"
    if "(uid, x) \<notin> set (map (\<lambda>f. (lk_user_id f, lk_friend_id f)) (friends_t db))"
      and "(x, uid) \<notin> set (map (\<lambda>f. (lk_user_id f, lk_friend_id f)) (friends_t db))"
  proof -
    from that have "filter ?keep (friends_t db) = friends_t db"
      by (auto simp: filter_id_conv)
    then show ?thesis
      by simp
  qed
  show ?thesis
    unfolding Let_def first second fst_conv snd_conv
    using gone kept frame none by blast
qed

theorem removeFriend_deletes_both_and_is_idempotent_witness:
  "plain_id ''a'' \<and> plain_id ''b'' \<and>
   map (\<lambda>f. (lk_user_id f, lk_friend_id f)) (friends_t db_circle) =
     [(''a'', ''c''), (''b'', ''a''), (''c'', ''b''), (''a'', ''b''), (''c'', ''a''), (''b'', ''c'')] \<and>
   fst (removeFriend refuses (\<lambda>i. False) (Some ''a'') db_circle st_stale ''b'') \<and>
   map (\<lambda>f. (lk_user_id f, lk_friend_id f))
     (friends_t (fst (snd (removeFriend refuses (\<lambda>i. False) (Some ''a'') db_circle st_stale ''b'')))) =
     [(''a'', ''c''), (''c'', ''b''), (''c'', ''a''), (''b'', ''c'')] \<and>
   fst (removeFriend refuses (\<lambda>i. False) (Some ''a'')
          (fst (snd (removeFriend refuses (\<lambda>i. False) (Some ''a'') db_circle st_stale ''b'')))
          st_stale ''b'') \<and>
   fst (snd (removeFriend refuses (\<lambda>i. False) (Some ''a'')
          (fst (snd (removeFriend refuses (\<lambda>i. False) (Some ''a'') db_circle st_stale ''b'')))
          st_stale ''b'')) =
     fst (snd (removeFriend refuses (\<lambda>i. False) (Some ''a'') db_circle st_stale ''b''))"
proof -
  let ?r = "removeFriend_with refuses loadFriends (\<lambda>i. False) (Some ''a'') db_circle st_stale ''b''"
  let ?r' = "removeFriend_with refuses loadFriends (\<lambda>i. False) (Some ''a'') (fst (snd ?r))
               st_stale ''b''"
  have plain: "plain_id ''a''" "plain_id ''b''"
    by (simp_all add: plain_id_def)
  have links:
    "map (\<lambda>f. (lk_user_id f, lk_friend_id f)) (friends_t db_circle) =
       [(''a'', ''c''), (''b'', ''a''), (''c'', ''b''), (''a'', ''b''), (''c'', ''a''), (''b'', ''c'')]"
    by (simp add: db_circle_def)
  note w = removeFriend_deletes_both_and_is_idempotent
      [where err = "\<lambda>i. False" and err' = "\<lambda>i. False" and loadF = loadFriends
         and loadF' = loadFriends and uid = "''a''" and db = db_circle and st = st_stale
         and st' = st_stale and x = "''b''" and reads = refuses, OF plain, unfolded Let_def]
  from w have first: "fst ?r" and second: "fst ?r'" and same: "fst (snd ?r') = fst (snd ?r)"
    by blast+
  from w have "friends_t (fst (snd ?r)) =
      filter (\<lambda>f. (lk_user_id f, lk_friend_id f) \<noteq> (''a'', ''b'') \<and>
                  (lk_user_id f, lk_friend_id f) \<noteq> (''b'', ''a'')) (friends_t db_circle)"
    by blast
  then have rest: "map (\<lambda>f. (lk_user_id f, lk_friend_id f)) (friends_t (fst (snd ?r))) =
      [(''a'', ''c''), (''c'', ''b''), (''c'', ''a''), (''b'', ''c'')]"
    by (simp add: db_circle_def)
  show ?thesis
    unfolding removeFriend_def using plain links first rest second same by blast
qed

text \<open>
  The claim as it was written, for every friend id: with the id \<^verbatim>\<open>b,c\<close> the spliced
  filter is one the store refuses, and \<^verbatim>\<open>removeFriend\<close> reports failure although no row
  links the caller and that id and every round trip succeeds.
\<close>

theorem removeFriend_spliced_id_fails:
  "link_filter ''a'' ''b,c'' =
     ''and(user_id.eq.a,friend_id.eq.b,c),and(user_id.eq.b,c,friend_id.eq.a)'' \<and>
   (''a'', ''b,c'') \<notin> set (map (\<lambda>f. (lk_user_id f, lk_friend_id f)) (friends_t db_new)) \<and>
   (''b,c'', ''a'') \<notin> set (map (\<lambda>f. (lk_user_id f, lk_friend_id f)) (friends_t db_new)) \<and>
   \<not> fst (removeFriend refuses (\<lambda>i. False) (Some ''a'') db_new st_stale ''b,c'')"
  by (simp add: removeFriend_def removeFriend_with_def read_link_filter_def plain_id_def
      link_filter_def refuses_def db_new_def)

text \<open>
  C6. \<^verbatim>\<open>rejectFriendRequest\<close> writes nothing but the status of the request: the store
  afterwards is the store before with the request's status set to rejected when the call
  reports success, and the store before when it reports failure. The friend links, remote
  and mirrored, are the same in both cases and in both revisions.
\<close>

theorem rejectFriendRequest_leaves_friend_links:
  "fst (snd (rejectFriendRequest err user db st requestId)) =
     (if fst (rejectFriendRequest err user db st requestId)
      then db\<lparr>friend_requests_t := set_status requestId Rejected (friend_requests_t db)\<rparr>
      else db) \<and>
   friends_t (fst (snd (rejectFriendRequest err user db st requestId))) = friends_t db \<and>
   friends (snd (snd (rejectFriendRequest err user db st requestId))) = friends st \<and>
   fst (snd (rejectFriendRequest_join fk err user db st requestId)) =
     (if fst (rejectFriendRequest_join fk err user db st requestId)
      then db\<lparr>friend_requests_t := set_status requestId Rejected (friend_requests_t db)\<rparr>
      else db) \<and>
   friends_t (fst (snd (rejectFriendRequest_join fk err user db st requestId))) = friends_t db \<and>
   friends (snd (snd (rejectFriendRequest_join fk err user db st requestId))) = friends st"
  by (simp add: rejectFriendRequest_def rejectFriendRequest_join_def rejectFriendRequest_with_def
      loadFriendRequests_friends loadFriendRequests_join_friends Let_def split: option.splits)

lemma sendFriendRequest_ok:
  assumes "filter (\<lambda>u. u_email u = Some email) (users_t db) = [ru]"
    and "u_id ru \<noteq> sender"
    and "filter (link_between sender (u_id ru)) (friends_t db) = []"
    and "\<not> es 0" and "\<not> es 2"
  shows "sendFriendRequest es (Some sender) db email =
           (True, db\<lparr>friend_requests_t := friend_requests_t db @ [new_request db sender (u_id ru)]\<rparr>)"
  using assms by (simp add: sendFriendRequest_def)

lemma acceptFriendRequest_with_ok:
  assumes "filter (\<lambda>r. rq_id r = rid) (friend_requests_t db) = [rq]"
    and "\<not> ea 0" and "\<not> ea 1" and "\<not> ea 2"
  shows "fst (acceptFriendRequest_with loadF loadR ea (Some uid) db st rid) \<and>
         fst (snd (acceptFriendRequest_with loadF loadR ea (Some uid) db st rid)) =
           db\<lparr>friends_t := friends_t db @ new_links db rq,
              friend_requests_t := set_status rid Accepted (friend_requests_t db)\<rparr>"
  using assms by (simp add: acceptFriendRequest_with_def Let_def)

text \<open>
  C1. Let the receiver's email resolve to the receiver alone, the two users be distinct and
  unlinked, and the round trips that the two operations depend on succeed. Then
  \<^verbatim>\<open>sendFriendRequest\<close> by the sender reports success and appends one request, and
  \<^verbatim>\<open>acceptFriendRequest\<close> by the receiver on that request reports success and leaves
  exactly two rows linking the pair, receiver to sender and sender to receiver, and that
  request with status accepted. The existence check of the send (round trip 1) may fail or
  not, and either revision's loaders may be in use.
\<close>

theorem send_then_accept_links_both_ways:
  assumes resolves: "filter (\<lambda>u. u_email u = Some email) (users_t db) = [ru]" "u_id ru = receiver"
    and distinct: "sender \<noteq> receiver"
    and unlinked: "filter (link_between sender receiver) (friends_t db) = []"
    and send_trips: "\<not> es 0" "\<not> es 2"
    and accept_trips: "\<not> ea 0" "\<not> ea 1" "\<not> ea 2"
  shows "let rq = new_request db sender receiver;
             s = sendFriendRequest es (Some sender) db email;
             a = acceptFriendRequest_with loadF loadR ea (Some receiver) (snd s) st (rq_id rq);
             db2 = fst (snd a)
         in fst s \<and> friend_requests_t (snd s) = friend_requests_t db @ [rq] \<and> fst a \<and>
            map (\<lambda>f. (lk_user_id f, lk_friend_id f))
              (filter (link_between sender receiver) (friends_t db2)) =
              [(receiver, sender), (sender, receiver)] \<and>
            filter (\<lambda>r. rq_id r = rq_id rq) (friend_requests_t db2) = [rq\<lparr>rq_status := Accepted\<rparr>]"
proof -
  let ?rq = "new_request db sender receiver"
  let ?db1 = "db\<lparr>friend_requests_t := friend_requests_t db @ [?rq]\<rparr>"
  have sent: "sendFriendRequest es (Some sender) db email = (True, ?db1)"
    using sendFriendRequest_ok [of email db ru sender es] assms by simp
  have only: "filter (\<lambda>r. rq_id r = rq_id ?rq) (friend_requests_t ?db1) = [?rq]"
    using filter_fresh_id [of rq_id "friend_requests_t db"] by (simp add: new_request_def)
  note accepted = acceptFriendRequest_with_ok [OF only accept_trips, of loadF loadR receiver st]
  let ?db2 = "?db1\<lparr>friends_t := friends_t ?db1 @ new_links ?db1 ?rq,
                 friend_requests_t := set_status (rq_id ?rq) Accepted (friend_requests_t ?db1)\<rparr>"
  have links: "map (\<lambda>f. (lk_user_id f, lk_friend_id f))
                 (filter (link_between sender receiver) (friends_t ?db2)) =
               [(receiver, sender), (sender, receiver)]"
    using unlinked by (simp add: new_links_def Let_def link_between_def new_request_def)
  have "filter (\<lambda>r. rq_id r = rq_id ?rq) (friend_requests_t ?db2) =
          map (\<lambda>r. r\<lparr>rq_status := Accepted\<rparr>)
            (filter (\<lambda>r. rq_id r = rq_id ?rq) (friend_requests_t ?db1))"
    by (simp add: filter_set_status)
  then have status: "filter (\<lambda>r. rq_id r = rq_id ?rq) (friend_requests_t ?db2) =
                  [?rq\<lparr>rq_status := Accepted\<rparr>]"
    by (simp only: only list.map)
  show ?thesis
    using sent accepted links status by (simp add: Let_def)
qed


theorem send_then_accept_links_both_ways_witness:
  "filter (\<lambda>u. u_email u = Some ''b@x'') (users_t db_new) = [bob] \<and> u_id bob = ''b'' \<and>
   ''a'' \<noteq> ''b'' \<and> filter (link_between ''a'' ''b'') (friends_t db_new) = [] \<and>
   rq_id (new_request db_new ''a'' ''b'') = 1 \<and>
   fst (sendFriendRequest (\<lambda>i. False) (Some ''a'') db_new ''b@x'') \<and>
   fst (acceptFriendRequest (\<lambda>i. False) (Some ''b'')
          (snd (sendFriendRequest (\<lambda>i. False) (Some ''a'') db_new ''b@x'')) (ctrl initial) 1) \<and>
   map (\<lambda>f. (lk_user_id f, lk_friend_id f))
     (filter (link_between ''a'' ''b'')
        (friends_t (fst (snd (acceptFriendRequest (\<lambda>i. False) (Some ''b'')
          (snd (sendFriendRequest (\<lambda>i. False) (Some ''a'') db_new ''b@x'')) (ctrl initial) 1))))) =
     [(''b'', ''a''), (''a'', ''b'')] \<and>
   filter (\<lambda>r. rq_id r = 1)
     (friend_requests_t (fst (snd (acceptFriendRequest (\<lambda>i. False) (Some ''b'')
          (snd (sendFriendRequest (\<lambda>i. False) (Some ''a'') db_new ''b@x'')) (ctrl initial) 1)))) =
     [\<lparr>rq_id = 1, rq_sender_id = ''a'', rq_receiver_id = ''b'', rq_status = Accepted,
       rq_created_at = 5\<rparr>]"
proof -
  have resolves: "filter (\<lambda>u. u_email u = Some ''b@x'') (users_t db_new) = [bob]" "u_id bob = ''b''"
    by (simp_all add: db_new_def alice_def bob_def carol_def)
  have distinct: "''a'' \<noteq> ''b''"
    by simp
  have unlinked: "filter (link_between ''a'' ''b'') (friends_t db_new) = []"
    by (simp add: db_new_def)
  have rq: "new_request db_new ''a'' ''b'' =
      \<lparr>rq_id = 1, rq_sender_id = ''a'', rq_receiver_id = ''b'', rq_status = Pending,
       rq_created_at = 5\<rparr>"
    by (simp add: new_request_def db_new_def fresh_id_def)
  note w = send_then_accept_links_both_ways
    [where es = "\<lambda>i. False" and ea = "\<lambda>i. False" and loadF = loadFriends
       and loadR = loadFriendRequests and st = "ctrl initial",
     OF resolves distinct unlinked, unfolded Let_def rq acceptFriendRequest_def [symmetric]]
  show ?thesis
    using resolves distinct unlinked rq w by simp
qed

text \<open>
  What \<^verbatim>\<open>sendFriendRequest\<close> does refuse without writing: an email of no user, the
  caller's own, and a user linked to the caller by exactly one row.
\<close>

lemma sendFriendRequest_refusals:
  "filter (\<lambda>u. u_email u = Some email) (users_t db) = [] \<Longrightarrow>
     sendFriendRequest err user db email = (False, db)"
  "filter (\<lambda>u. u_email u = Some email) (users_t db) = [ru] \<Longrightarrow> user = Some (u_id ru) \<Longrightarrow>
     sendFriendRequest err user db email = (False, db)"
  "filter (\<lambda>u. u_email u = Some email) (users_t db) = [ru] \<Longrightarrow>
   filter (link_between uid (u_id ru)) (friends_t db) = [l] \<Longrightarrow> \<not> err 1 \<Longrightarrow>
     sendFriendRequest err (Some uid) db email = (False, db)"
  by (cases "err 0"; simp add: sendFriendRequest_def split: option.splits)+

text \<open>
  C2. The claim asks that a request to a user who is already linked to the caller is
  refused. The existence check reads its result with \<^verbatim>\<open>.single()\<close>, which errs on two
  rows, and the check ignores the error: once both directional rows exist, as after every
  accepted request, the check finds nothing and the request is inserted.
\<close>

theorem sendFriendRequest_to_linked_friend:
  "map (\<lambda>f. (lk_user_id f, lk_friend_id f)) (filter (link_between ''a'' ''b'') (friends_t db_busy)) =
     [(''b'', ''a''), (''a'', ''b'')] \<and>
   sendFriendRequest (\<lambda>i. False) (Some ''a'') db_busy ''b@x'' =
     (True,
      db_busy\<lparr>friend_requests_t := friend_requests_t db_busy @
        [\<lparr>rq_id = 3, rq_sender_id = ''a'', rq_receiver_id = ''b'', rq_status = Pending,
          rq_created_at = 5\<rparr>]\<rparr>)"
  by (simp add: sendFriendRequest_def db_busy_def alice_def bob_def carol_def link_between_def
      new_request_def fresh_id_def)

lemma updateStudyStatus_one_row:
  assumes "length (presence_of db uid) \<le> 1" and "\<not> err 0"
  shows "map ss_last_active (presence_of (updateStudyStatus err now (Some uid) db status subject) uid) = [now]"
proof (cases "uid \<in> set (map ss_user_id (study_sessions_t db))")
  case True
  then have "presence_of db uid \<noteq> []"
    by (auto simp: presence_of_def filter_empty_conv)
  with assms(1) obtain s where s: "presence_of db uid = [s]"
    by (cases "presence_of db uid") auto
  have "presence_of (updateStudyStatus err now (Some uid) db status subject) uid =
          map (\<lambda>s. s\<lparr>ss_status := status, ss_subject := or_null subject, ss_last_active := now\<rparr>)
            (presence_of db uid)"
    using True assms(2)
    by (simp add: updateStudyStatus_def upsert_session_def presence_of_def filter_map comp_def
        cong: filter_cong map_cong)
  then show ?thesis
    by (simp add: s)
next
  case False
  then have "presence_of db uid = []"
    by (auto simp: presence_of_def filter_empty_conv)
  then show ?thesis
    using False assms(2)
    by (simp add: updateStudyStatus_def upsert_session_def presence_of_def Let_def)
qed

text \<open>
  C7, as amended. Starting from a table with at most one presence row of the user, after
  each call of a sequence of calls by that user whose upsert round trips succeed the
  table holds exactly one presence row of the user, and its \<^verbatim>\<open>last_active\<close> is the
  reading of the client's clock taken by that call. Across successive calls
  \<^verbatim>\<open>last_active\<close> is therefore ordered as the clock readings are.
\<close>

theorem updateStudyStatus_keeps_one_row_stamped_by_clock:
  assumes "length (presence_of db uid) \<le> 1" and "\<forall>c \<in> set calls. \<not> fst c 0"
  shows "map (\<lambda>d. map ss_last_active (presence_of d uid)) (run_updates uid db calls) =
           map (\<lambda>c. [fst (snd c)]) calls"
  using assms
proof (induction calls arbitrary: db)
  case Nil
  then show ?case by simp
next
  case (Cons c calls)
  obtain err now status subject where c: "c = (err, now, status, subject)"
    by (cases c) auto
  let ?db' = "updateStudyStatus err now (Some uid) db status subject"
  from Cons.prems c have ok: "\<not> err 0"
    by simp
  have one: "map ss_last_active (presence_of ?db' uid) = [now]"
    using Cons.prems(1) ok by (rule updateStudyStatus_one_row)
  then have "length (presence_of ?db' uid) \<le> 1"
    using length_map [of ss_last_active "presence_of ?db' uid"] by simp
  with Cons.IH [of ?db'] Cons.prems(2)
  have "map (\<lambda>d. map ss_last_active (presence_of d uid)) (run_updates uid ?db' calls) =
          map (\<lambda>c. [fst (snd c)]) calls"
    by simp
  with one c show ?case
    by (simp add: Let_def)
qed

theorem updateStudyStatus_keeps_one_row_stamped_by_clock_witness:
  "length (presence_of db_busy ''a'') \<le> 1 \<and>
   map (\<lambda>d. map ss_last_active (presence_of d ''a''))
     (run_updates ''a'' db_busy
        [(\<lambda>i. False, 7, Break, None), (\<lambda>i. False, 9, Studying, Some ''physics'')]) =
     [[7], [9]]"
proof -
  have one: "length (presence_of db_busy ''a'') \<le> 1"
    by (simp add: presence_of_def db_busy_def)
  have ok: "\<forall>c \<in> set [(\<lambda>i::nat. False, 7::nat, Break, None),
                      (\<lambda>i. False, 9, Studying, Some ''physics'')]. \<not> fst c 0"
    by simp
  show ?thesis
    using one updateStudyStatus_keeps_one_row_stamped_by_clock [OF one ok] by simp
qed

text \<open>
  Two calls that read the same instant leave \<^verbatim>\<open>last_active\<close> as it was: the values
  seen after the two calls are not strictly increasing.
\<close>

theorem updateStudyStatus_same_instant:
  "concat (map (\<lambda>d. map ss_last_active (presence_of d ''a''))
     (run_updates ''a'' db_new
        [(\<lambda>i. False, 7, Studying, None), (\<lambda>i. False, 7, Break, Some ''maths'')])) = [7, 7] \<and>
   \<not> sorted_wrt (<) (concat (map (\<lambda>d. map ss_last_active (presence_of d ''a''))
     (run_updates ''a'' db_new
        [(\<lambda>i. False, 7, Studying, None), (\<lambda>i. False, 7, Break, Some ''maths'')])))"
  by (simp add: updateStudyStatus_def upsert_session_def presence_of_def db_new_def Let_def
      or_null_def fresh_id_def)


section \<open>The two revisions\<close>

lemma loadFriends_join_eq:
  assumes "\<forall>uid. fk uid = find (\<lambda>u. u_id u = uid) (users_t db)" and "\<not> err 1"
  shows "loadFriends err user db st = loadFriends_join fk err user db st"
  using assms
  by (cases "err 0")
     (auto simp add: loadFriends_def loadFriends_join_def Let_def find_in_filter
      split: option.splits)

lemma loadFriendRequests_join_eq:
  assumes "\<forall>uid. fk uid = find (\<lambda>u. u_id u = uid) (users_t db)" and "\<not> err 1"
  shows "loadFriendRequests err user db st = loadFriendRequests_join fk err user db st"
  using assms
  by (cases "err 0")
     (auto simp add: loadFriendRequests_def loadFriendRequests_join_def Let_def find_in_filter
      split: option.splits)

lemma loadStudySessions_join_eq:
  assumes "\<forall>uid. fk uid = find (\<lambda>u. u_id u = uid) (users_t db)" and "\<not> err 1"
  shows "loadStudySessions err user db captured st = loadStudySessions_join fk err user db captured st"
  using assms
  by (cases "err 0")
     (auto simp add: loadStudySessions_def loadStudySessions_join_def Let_def find_in_filter
      split: option.splits)

lemma loadGroupMessages_join_eq:
  assumes "\<forall>uid. fk uid = find (\<lambda>u. u_id u = uid) (users_t db)" and "\<not> err 1"
  shows "loadGroupMessages err user db st = loadGroupMessages_join fk err user db st"
  using assms
  by (cases "err 0")
     (auto simp add: loadGroupMessages_def loadGroupMessages_join_def Let_def find_in_filter
      split: option.splits)

lemma acceptFriendRequest_with_remote:
  "fst (acceptFriendRequest_with loadF loadR err user db st rid) =
     fst (acceptFriendRequest_with loadF' loadR' err user db st rid) \<and>
   fst (snd (acceptFriendRequest_with loadF loadR err user db st rid)) =
     fst (snd (acceptFriendRequest_with loadF' loadR' err user db st rid))"
  by (simp add: acceptFriendRequest_with_def Let_def split: option.splits sum.splits)

lemma rejectFriendRequest_with_remote:
  "fst (rejectFriendRequest_with loadR err user db st rid) =
     fst (rejectFriendRequest_with loadR' err user db st rid) \<and>
   fst (snd (rejectFriendRequest_with loadR err user db st rid)) =
     fst (snd (rejectFriendRequest_with loadR' err user db st rid))"
  by (simp add: rejectFriendRequest_with_def Let_def split: option.splits)

lemma removeFriend_with_remote:
  "fst (removeFriend_with reads loadF err user db st x) =
     fst (removeFriend_with reads loadF' err user db st x) \<and>
   fst (snd (removeFriend_with reads loadF err user db st x)) =
     fst (snd (removeFriend_with reads loadF' err user db st x))"
  by (simp add: removeFriend_with_def Let_def split: option.splits sum.splits)

text \<open>
  C10. Let the join return, for every user id, the entry the directory query finds. Then
  each loader of the revision with two round trips leaves the cells as the loader with the
  join does, whenever its directory round trip does not fail, and so do the bulk load and
  the reloads at the end of accept, reject and remove. The return value and the remote
  store of these three operations are the same in both revisions for every outcome of the
  round trips. (\<^verbatim>\<open>sendFriendRequest\<close>, \<^verbatim>\<open>updateStudyStatus\<close> and
  \<^verbatim>\<open>sendGroupMessage\<close> call no loader; their text is the same in both files and each is
  one definition here.)
\<close>

theorem revisions_agree:
  assumes fk: "\<forall>uid. fk uid = find (\<lambda>u. u_id u = uid) (users_t db)"
  shows "(\<not> err 1 \<longrightarrow>
            loadFriends err user db st = loadFriends_join fk err user db st \<and>
            loadFriendRequests err user db st = loadFriendRequests_join fk err user db st \<and>
            loadStudySessions err user db captured st =
              loadStudySessions_join fk err user db captured st \<and>
            loadGroupMessages err user db st = loadGroupMessages_join fk err user db st) \<and>
         (\<not> err 1 \<and> \<not> err 3 \<and> \<not> err 5 \<and> \<not> err 7 \<longrightarrow>
            user_changed err user db p = user_changed_join fk err user db p) \<and>
         fst (acceptFriendRequest err user db st rid) =
           fst (acceptFriendRequest_join fk err user db st rid) \<and>
         fst (snd (acceptFriendRequest err user db st rid)) =
           fst (snd (acceptFriendRequest_join fk err user db st rid)) \<and>
         (\<not> err 4 \<and> \<not> err 6 \<longrightarrow>
            acceptFriendRequest err user db st rid = acceptFriendRequest_join fk err user db st rid) \<and>
         fst (rejectFriendRequest err user db st rid) =
           fst (rejectFriendRequest_join fk err user db st rid) \<and>
         fst (snd (rejectFriendRequest err user db st rid)) =
           fst (snd (rejectFriendRequest_join fk err user db st rid)) \<and>
         (\<not> err 2 \<longrightarrow>
            rejectFriendRequest err user db st rid = rejectFriendRequest_join fk err user db st rid) \<and>
         fst (removeFriend reads err user db st x) =
           fst (removeFriend_join fk reads err user db st x) \<and>
         fst (snd (removeFriend reads err user db st x)) =
           fst (snd (removeFriend_join fk reads err user db st x)) \<and>
         (\<not> err 2 \<longrightarrow>
            removeFriend reads err user db st x = removeFriend_join fk reads err user db st x)"
proof -
  have same: "\<forall>uid. fk uid = find (\<lambda>u. u_id u = uid) (users_t db')" if "users_t db' = users_t db" for db'
    using fk that by simp
  have loaders: "loadFriends e u db' s = loadFriends_join fk e u db' s"
    "loadFriendRequests e u db' s = loadFriendRequests_join fk e u db' s"
    "loadStudySessions e u db' c s = loadStudySessions_join fk e u db' c s"
    "loadGroupMessages e u db' s = loadGroupMessages_join fk e u db' s"
    if "\<not> e 1" and "users_t db' = users_t db" for e u db' s c
  proof -
    note agree = same [OF that(2)]
    show "loadFriends e u db' s = loadFriends_join fk e u db' s"
      using agree that(1) by (rule loadFriends_join_eq)
    show "loadFriendRequests e u db' s = loadFriendRequests_join fk e u db' s"
      using agree that(1) by (rule loadFriendRequests_join_eq)
    show "loadStudySessions e u db' c s = loadStudySessions_join fk e u db' c s"
      using agree that(1) by (rule loadStudySessions_join_eq)
    show "loadGroupMessages e u db' s = loadGroupMessages_join fk e u db' s"
      using agree that(1) by (rule loadGroupMessages_join_eq)
  qed
  have bulk: "user_changed err user db p = user_changed_join fk err user db p"
    if "\<not> err 1" "\<not> err 3" "\<not> err 5" "\<not> err 7"
    using that
    by (simp add: user_changed_def user_changed_join_def user_changed_with_def effect_with_def
        loadFriendsData_with_def Let_def loaders del: add_2_eq_Suc add_2_eq_Suc'
        split: option.splits)
  have accept: "acceptFriendRequest err user db st rid = acceptFriendRequest_join fk err user db st rid"
    if "\<not> err 4" "\<not> err 6"
    using that
    by (simp add: acceptFriendRequest_def acceptFriendRequest_join_def acceptFriendRequest_with_def
        Let_def loaders split: option.splits sum.splits)
  have reject: "rejectFriendRequest err user db st rid = rejectFriendRequest_join fk err user db st rid"
    if "\<not> err 2"
    using that
    by (simp add: rejectFriendRequest_def rejectFriendRequest_join_def rejectFriendRequest_with_def
        Let_def loaders numeral_2_eq_2 split: option.splits)
  have remove: "removeFriend reads err user db st x = removeFriend_join fk reads err user db st x"
    if "\<not> err 2"
    using that
    by (simp add: removeFriend_def removeFriend_join_def removeFriend_with_def
        Let_def loaders numeral_2_eq_2 split: option.splits sum.splits)
  have single_load:
    "loadFriends err user db st = loadFriends_join fk err user db st \<and>
     loadFriendRequests err user db st = loadFriendRequests_join fk err user db st \<and>
     loadStudySessions err user db captured st =
       loadStudySessions_join fk err user db captured st \<and>
     loadGroupMessages err user db st = loadGroupMessages_join fk err user db st"
    if "\<not> err 1"
    using that by (simp add: loaders)
  show ?thesis
    using single_load bulk accept reject remove
      acceptFriendRequest_with_remote [of loadFriends loadFriendRequests err user db st rid
        "loadFriends_join fk" "loadFriendRequests_join fk"]
      rejectFriendRequest_with_remote [of loadFriendRequests err user db st rid
        "loadFriendRequests_join fk"]
      removeFriend_with_remote [of reads loadFriends err user db st x "loadFriends_join fk"]
    unfolding acceptFriendRequest_def acceptFriendRequest_join_def rejectFriendRequest_def
      rejectFriendRequest_join_def removeFriend_def removeFriend_join_def
    by blast
qed

theorem revisions_agree_witness:
  "loadFriends (\<lambda>i. False) (Some ''a'') db_busy st_stale =
     loadFriends_join (directory_join db_busy) (\<lambda>i. False) (Some ''a'') db_busy st_stale \<and>
   loadFriendRequests (\<lambda>i. False) (Some ''a'') db_busy st_stale =
     loadFriendRequests_join (directory_join db_busy) (\<lambda>i. False) (Some ''a'') db_busy st_stale \<and>
   friendRequests (loadFriendRequests (\<lambda>i. False) (Some ''a'') db_busy st_stale) =
     [\<lparr>r_id = 2, r_sender_id = ''c'', r_receiver_id = ''a'', r_sender_name = ''Unknown'',
       r_sender_email = ''c@x'', r_status = Pending, r_created_at = 3\<rparr>] \<and>
   user_changed (\<lambda>i. False) (Some ''a'') db_busy initial =
     user_changed_join (directory_join db_busy) (\<lambda>i. False) (Some ''a'') db_busy initial \<and>
   acceptFriendRequest (\<lambda>i. False) (Some ''a'') db_busy st_stale 2 =
     acceptFriendRequest_join (directory_join db_busy) (\<lambda>i. False) (Some ''a'') db_busy st_stale 2 \<and>
   rejectFriendRequest (\<lambda>i. False) (Some ''a'') db_busy st_stale 2 =
     rejectFriendRequest_join (directory_join db_busy) (\<lambda>i. False) (Some ''a'') db_busy st_stale 2 \<and>
   removeFriend refuses (\<lambda>i. False) (Some ''a'') db_busy st_stale ''b'' =
     removeFriend_join (directory_join db_busy) refuses (\<lambda>i. False) (Some ''a'') db_busy st_stale
       ''b''"
proof -
  have agree: "\<forall>uid. directory_join db_busy uid = find (\<lambda>u. u_id u = uid) (users_t db_busy)"
    by (simp add: directory_join_def)
  have unknown:
    "friendRequests (loadFriendRequests_join (directory_join db_busy) (\<lambda>i. False) (Some ''a'')
        db_busy st_stale) =
     [\<lparr>r_id = 2, r_sender_id = ''c'', r_receiver_id = ''a'', r_sender_name = ''Unknown'',
       r_sender_email = ''c@x'', r_status = Pending, r_created_at = 3\<rparr>]"
    by (simp add: loadFriendRequests_join_def directory_join_def db_busy_def alice_def bob_def
        carol_def or_default_def)
  show ?thesis
    using unknown
      revisions_agree [OF agree, where err = "\<lambda>i. False" and user = "Some ''a''"
        and st = st_stale and p = initial and rid = 2 and x = "''b''"
        and captured = "friends st_stale" and reads = refuses]
    by simp
qed

end
